theory Spec2Isabelle
  imports Main
begin

section \<open>Data model\<close>

text \<open>
  The travel planner keeps a collection of trips, a profile and loose calendar events
  (\<^verbatim>\<open>fullData: { trips: Trip[], userProfile, customEvents }\<close> in the Planner props).
  A trip carries the fields the components read and write: the form of the Planner edits
  title, location, startDate, endDate, description and budget; itinerary, expenses and
  flights are edited elsewhere and are kept here as opaque lists. The JavaScript field
  \<^verbatim>\<open>id\<close> is called \<open>trip_id\<close> (\<open>id\<close> is the identity function of HOL). Budgets are
  whole amounts.
\<close>

record trip =
  trip_id :: string
  title :: string
  location :: string
  startDate :: string
  endDate :: string
  description :: string
  budget :: int
  itinerary :: "string list"
  expenses :: "string list"
  flights :: "string list"

record dataset =
  trips :: "trip list"
  userProfile :: string
  customEvents :: "string list"

text \<open>\<^verbatim>\<open>Record<string, 'local' | 'remote'>\<close>: the choice recorded per trip id.\<close>

datatype side = Local | Remote

type_synonym resolutions = "string \<rightharpoonup> side"

datatype field_value = Text string | Amount int | Items "string list"

text \<open>\<^verbatim>\<open>ConflictItem\<close>, as the conflict dialog of Settings reads it.\<close>

record conflict_item =
  c_tripId :: string
  c_tripTitle :: string
  c_field :: string
  c_localValue :: field_value
  c_remoteValue :: field_value

text \<open>\<^verbatim>\<open>TripVersion\<close>, as the Planner reads it (\<^verbatim>\<open>version.data\<close>, \<^verbatim>\<open>version.timestamp\<close>).\<close>

record trip_version =
  v_id :: string
  v_tripId :: string
  v_timestamp :: nat
  v_note :: string
  v_data :: trip

datatype error = RemoteUnavailable

definition trip_ids :: "dataset \<Rightarrow> string set" where
  "trip_ids d = trip_id ` set (trips d)"

definition find_trip :: "string \<Rightarrow> trip list \<Rightarrow> trip option" where
  "find_trip i ts = find (\<lambda>t. trip_id t = i) ts"

section \<open>Snapshot Differ and Merge Engine\<close>

text \<open>
  Settings calls \<^verbatim>\<open>SupabaseService.checkForConflicts\<close> and
  \<^verbatim>\<open>SupabaseService.saveGlobalBackup\<close>; the file \<^verbatim>\<open>services/supabaseService\<close> that
  holds the Differ and the Merge Engine is not part of the sources.
\<close>

text \<open>
  Modelled from the spec: the Conflict Item of the Differ (missing from the sources), one
  row for a field whose local and remote values differ, none when they are equal.
\<close>

definition conflict :: "trip \<Rightarrow> string \<Rightarrow> field_value \<Rightarrow> field_value \<Rightarrow> conflict_item list" where
  "conflict l f a b =
     (if a = b then []
      else [\<lparr>c_tripId = trip_id l, c_tripTitle = title l, c_field = f,
             c_localValue = a, c_remoteValue = b\<rparr>])"

text \<open>
  Modelled from the spec: the comparison of the Differ (missing from the sources) over the
  fixed set of comparable fields: title, location, dates, budget, itinerary, expenses.
\<close>

definition field_conflicts :: "trip \<Rightarrow> trip \<Rightarrow> conflict_item list" where
  "field_conflicts l r =
     conflict l ''title'' (Text (title l)) (Text (title r)) @
     conflict l ''location'' (Text (location l)) (Text (location r)) @
     conflict l ''startDate'' (Text (startDate l)) (Text (startDate r)) @
     conflict l ''endDate'' (Text (endDate l)) (Text (endDate r)) @
     conflict l ''budget'' (Amount (budget l)) (Amount (budget r)) @
     conflict l ''itinerary'' (Items (itinerary l)) (Items (itinerary r)) @
     conflict l ''expenses'' (Items (expenses l)) (Items (expenses r))"

text \<open>
  Modelled from the spec: \<^verbatim>\<open>detectConflicts\<close> of the Differ (missing from the sources).
  Only trip ids present in both datasets are compared; a trip id on one side only is no
  conflict.
\<close>

definition detectConflicts :: "dataset \<Rightarrow> dataset \<Rightarrow> conflict_item list" where
  "detectConflicts L R =
     concat (map (\<lambda>l. case find_trip (trip_id l) (trips R) of
                         None \<Rightarrow> []
                       | Some r \<Rightarrow> field_conflicts l r) (trips L))"

text \<open>
  Modelled from the spec: the choice of the Merge Engine (missing from the sources) for
  one local trip. A local-only trip stays. For a trip id present on both sides the result
  is the remote trip when the trip conflicts and the resolution map says \<open>Remote\<close>, and
  the local trip otherwise: a missing entry counts as \<open>Local\<close>, and a trip id on both
  sides without a conflict item keeps one copy, the local one (the merged dataset is
  keyed by trip id).
\<close>

definition merge_trip :: "dataset \<Rightarrow> resolutions \<Rightarrow> trip \<Rightarrow> trip" where
  "merge_trip R res l =
     (case find_trip (trip_id l) (trips R) of
        None \<Rightarrow> l
      | Some r \<Rightarrow>
          if field_conflicts l r \<noteq> [] \<and> res (trip_id l) = Some Remote then r else l)"

text \<open>
  Modelled from the spec: \<^verbatim>\<open>merge\<close> of the Merge Engine (missing from the sources).
  The merged trips are the local trips, each after the choice above, followed by the
  remote-only trips; profile and loose events are the local ones.
\<close>

definition merge :: "dataset \<Rightarrow> dataset \<Rightarrow> resolutions \<Rightarrow> dataset" where
  "merge L R res =
     \<lparr>trips = map (merge_trip R res) (trips L) @
              filter (\<lambda>r. trip_id r \<notin> trip_ids L) (trips R),
      userProfile = userProfile L,
      customEvents = customEvents L\<rparr>"

section \<open>Calls to the outside\<close>

text \<open>
  The components talk to the outside through their props (\<^verbatim>\<open>onImportData\<close>,
  \<^verbatim>\<open>onUpdateTrip\<close>), through the browser (\<^verbatim>\<open>alert\<close>, \<^verbatim>\<open>window.confirm\<close>) and, inside
  the service, through the Remote Backup Store. Every handler returns the list of these
  calls in the order it makes them. The answers of the outside (what a fetch returns,
  whether a write is acknowledged, what the user answers to a confirmation) are
  arguments of the handler. Logging to the console is left out.
\<close>

datatype confirm_msg =
    SwitchAvailable string       \<comment> \<open>"Switch Sync ID to ...? This ID appears to be available."\<close>
  | WarningInUse string          \<comment> \<open>"WARNING: ID ALREADY IN USE ..."\<close>
  | RestoreOtherTrip string      \<comment> \<open>"This version is from a different Trip ID ..."\<close>
  | RestoreSameTrip nat          \<comment> \<open>"Restore version from ...? Current unsaved changes will be lost."\<close>

datatype event =
    RemoteFetch string
  | RemoteWrite string dataset
  | ImportData dataset
  | UpdateTrip trip
  | Confirm confirm_msg
  | Alert string

text \<open>A failure of the store carries the message of the JavaScript \<^verbatim>\<open>Error\<close>.\<close>

fun message :: "error \<Rightarrow> string" where
  "message RemoteUnavailable = ''RemoteUnavailable''"

fun imported :: "event list \<Rightarrow> dataset list" where
  "imported [] = []"
| "imported (ImportData d # es) = d # imported es"
| "imported (_ # es) = imported es"

fun written :: "event list \<Rightarrow> (string \<times> dataset) list" where
  "written [] = []"
| "written (RemoteWrite i d # es) = (i, d) # written es"
| "written (_ # es) = written es"

fun fetched_ids :: "event list \<Rightarrow> string list" where
  "fetched_ids [] = []"
| "fetched_ids (RemoteFetch i # es) = i # fetched_ids es"
| "fetched_ids (_ # es) = fetched_ids es"

section \<open>The service, as far as Settings calls it\<close>

text \<open>
  Modelled from the spec: \<^verbatim>\<open>SupabaseService.checkForConflicts\<close> is missing from the
  sources. It fetches the remote dataset (failing with \<open>RemoteUnavailable\<close> when the
  fetch fails) and hands back the report of the Differ together with the fetched copy.
  When nothing is stored under the identifier there is no remote trip and so no conflict.
\<close>

definition checkForConflicts ::
  "error + dataset option \<Rightarrow> string \<Rightarrow> dataset \<Rightarrow>
   (error + conflict_item list \<times> dataset option) \<times> event list" where
  "checkForConflicts fetched sid L =
     (case fetched of
        Inl e \<Rightarrow> (Inl e, [RemoteFetch sid])
      | Inr None \<Rightarrow> (Inr ([], None), [RemoteFetch sid])
      | Inr (Some R) \<Rightarrow> (Inr (detectConflicts L R, Some R), [RemoteFetch sid]))"

text \<open>
  Modelled from the spec: \<^verbatim>\<open>SupabaseService.saveGlobalBackup\<close> is missing from the
  sources. It merges, writes the merged dataset under the identifier and returns that
  same value; when the write fails the whole call fails. \<open>wr\<close> is the answer of the
  store to the write: \<open>None\<close> for an acknowledgement, \<open>Some e\<close> for a failure.
\<close>

definition saveGlobalBackup ::
  "error option \<Rightarrow> string \<Rightarrow> dataset \<Rightarrow> dataset option \<Rightarrow> resolutions \<Rightarrow>
   (error + dataset) \<times> event list" where
  "saveGlobalBackup wr sid L R res =
     (let merged = (case R of None \<Rightarrow> L | Some r \<Rightarrow> merge L r res)
      in (case wr of
            None \<Rightarrow> (Inr merged, [RemoteWrite sid merged])
          | Some e \<Rightarrow> (Inl e, [RemoteWrite sid merged])))"

text \<open>
  \<^verbatim>\<open>SupabaseService.loadGlobalBackup\<close> is a read of the store: its answer is the
  argument \<open>fetched\<close> (\<open>Inr None\<close> is JavaScript's \<^verbatim>\<open>null\<close>: nothing stored).
\<close>

definition loadGlobalBackup ::
  "error + dataset option \<Rightarrow> string \<Rightarrow> (error + dataset option) \<times> event list" where
  "loadGlobalBackup fetched sid = (fetched, [RemoteFetch sid])"

section \<open>Settings: cloud sync\<close>

datatype sync_status = Idle | Success | Error | Merged

text \<open>
  The state hooks of the Settings component that the sync handlers read and write, and
  the entry \<^verbatim>\<open>wanderlust_sync_id\<close> of the local storage (\<open>stored_sync_id\<close>).
\<close>

record settings =
  syncId :: string
  stored_sync_id :: "string option"
  isSyncing :: bool
  syncStatus :: sync_status
  isEditingId :: bool
  tempId :: string
  conflicts :: "conflict_item list"
  remoteDataCache :: "dataset option"
  resolutionMap :: resolutions
  showConflictModal :: bool

text \<open>\<^verbatim>\<open>foundConflicts.forEach(c => initialMap[c.tripId] = 'local')\<close>\<close>

definition initialMap :: "conflict_item list \<Rightarrow> resolutions" where
  "initialMap cs = foldl (\<lambda>m c. m(c_tripId c \<mapsto> Local)) Map.empty cs"

text \<open>
  \<^verbatim>\<open>performSync\<close>: the import of the merged data and the success state come after the
  awaited call of the service; a rejection goes to the \<^verbatim>\<open>catch\<close> branch; the
  \<^verbatim>\<open>finally\<close> branch clears \<open>isSyncing\<close> on both. The timer that sets the status back
  to idle three seconds later is a later step and not part of the handler.
\<close>

definition performSync ::
  "error option \<Rightarrow> dataset \<Rightarrow> dataset option \<Rightarrow> resolutions \<Rightarrow> settings \<Rightarrow>
   settings \<times> event list" where
  "performSync wr fullData remoteData resolutions st =
     (case saveGlobalBackup wr (syncId st) fullData remoteData resolutions of
        (Inr mergedData, evs) \<Rightarrow>
          (st\<lparr>syncStatus := Success, showConflictModal := False, conflicts := [],
              remoteDataCache := None, isSyncing := False\<rparr>,
           evs @ [ImportData mergedData,
                  Alert ''Sync successful! Changes have been merged.''])
      | (Inl e, evs) \<Rightarrow>
          (st\<lparr>syncStatus := Error, isSyncing := False\<rparr>,
           evs @ [Alert (''Sync failed during save: '' @ message e)]))"

definition handleCloudSync ::
  "error + dataset option \<Rightarrow> error option \<Rightarrow> dataset \<Rightarrow> settings \<Rightarrow>
   settings \<times> event list" where
  "handleCloudSync fetched wr fullData st0 =
     (let st = st0\<lparr>isSyncing := True, syncStatus := Idle\<rparr>
      in case checkForConflicts fetched (syncId st) fullData of
           (Inl e, evs) \<Rightarrow>
             (st\<lparr>syncStatus := Error, isSyncing := False\<rparr>,
              evs @ [Alert (''Sync failed: '' @ message e)])
         | (Inr (foundConflicts, remoteData), evs) \<Rightarrow>
             if length foundConflicts > 0
             then (st\<lparr>conflicts := foundConflicts, remoteDataCache := remoteData,
                      resolutionMap := initialMap foundConflicts,
                      showConflictModal := True, isSyncing := False\<rparr>, evs)
             else (case performSync wr fullData remoteData Map.empty st of
                     (st', evs') \<Rightarrow> (st', evs @ evs')))"

definition handleResolutionChange :: "string \<Rightarrow> side \<Rightarrow> settings \<Rightarrow> settings" where
  "handleResolutionChange tripId v st = st\<lparr>resolutionMap := (resolutionMap st)(tripId \<mapsto> v)\<rparr>"

definition handleConfirmResolution ::
  "error option \<Rightarrow> dataset \<Rightarrow> settings \<Rightarrow> settings \<times> event list" where
  "handleConfirmResolution wr fullData st =
     performSync wr fullData (remoteDataCache st) (resolutionMap st) st"


text \<open>The choice the dialog shows for a trip: \<^verbatim>\<open>resolutionMap[tripId] || 'local'\<close>.\<close>

definition currentChoice :: "settings \<Rightarrow> string \<Rightarrow> side" where
  "currentChoice st tripId = (case resolutionMap st tripId of None \<Rightarrow> Local | Some v \<Rightarrow> v)"

section \<open>Settings: the Sync Identifier\<close>

text \<open>
  Identifiers are strings of 8-bit characters. \<^verbatim>\<open>toUpperCase\<close> is JavaScript's on the
  ASCII range (the letters a to z go to A to Z, every other character stays);
  \<^verbatim>\<open>trim\<close> removes white space and line terminators at both ends.
\<close>

definition code :: "char \<Rightarrow> nat" where
  "code c = of_char c"

definition upper_char :: "char \<Rightarrow> char" where
  "upper_char c = (if 97 \<le> code c \<and> code c \<le> 122 then char_of (code c - 32) else c)"

definition toUpperCase :: "string \<Rightarrow> string" where
  "toUpperCase s = map upper_char s"

definition is_space :: "char \<Rightarrow> bool" where
  "is_space c = (code c \<in> {9, 10, 11, 12, 13, 32, 160})"

definition trim :: "string \<Rightarrow> string" where
  "trim s = rev (dropWhile is_space (rev (dropWhile is_space s)))"

text \<open>\<^verbatim>\<open>/^[A-Z0-9-]+$/.test(newId)\<close>\<close>

definition id_char :: "char \<Rightarrow> bool" where
  "id_char c = ((65 \<le> code c \<and> code c \<le> 90) \<or> (48 \<le> code c \<and> code c \<le> 57) \<or> code c = 45)"

definition id_pattern :: "string \<Rightarrow> bool" where
  "id_pattern s = (s \<noteq> [] \<and> list_all id_char s)"

definition saveEditedId :: "error + dataset option \<Rightarrow> bool \<Rightarrow> settings \<Rightarrow> settings \<times> event list" where
  "saveEditedId fetched answer st =
     (let newId = toUpperCase (trim (tempId st))
      in if newId = [] \<or> newId = syncId st then (st\<lparr>isEditingId := False\<rparr>, [])
         else if length newId < 4
           then (st, [Alert ''ID must be at least 4 characters long.''])
         else if \<not> id_pattern newId
           then (st, [Alert ''ID can only contain uppercase letters, numbers, and hyphens.''])
         else (case loadGlobalBackup fetched newId of
                 (Inr existing, evs) \<Rightarrow>
                   (let confirmMsg = (if existing \<noteq> None then WarningInUse newId
                                      else SwitchAvailable newId)
                    in if answer
                       then (st\<lparr>syncId := newId, stored_sync_id := Some newId,
                                isEditingId := False, isSyncing := False\<rparr>,
                             evs @ [Confirm confirmMsg])
                       else (st\<lparr>isSyncing := False\<rparr>, evs @ [Confirm confirmMsg]))
               | (Inl e, evs) \<Rightarrow>
                   (st\<lparr>isSyncing := False\<rparr>,
                    evs @ [Alert ''Could not verify ID availability.''])))"

text \<open>
  The effect that runs when \<open>syncId\<close> is empty:
  \<^verbatim>\<open>Math.random().toString(36).substring(2, 10).toUpperCase()\<close>. The argument \<open>r\<close> is
  the base-36 rendering of the random number, \<^verbatim>\<open>Math.random().toString(36)\<close>, a string
  such as \<^verbatim>\<open>0.4fzyo82mvyr\<close>; \<^verbatim>\<open>substring(2, 10)\<close> keeps the characters at the
  positions 2 to 9 that exist.
\<close>

definition generateSyncId :: "string \<Rightarrow> string" where
  "generateSyncId r = toUpperCase (take 8 (drop 2 r))"

definition ensureSyncId :: "string \<Rightarrow> settings \<Rightarrow> settings" where
  "ensureSyncId r st =
     (if syncId st = [] then
        (let newId = generateSyncId r
         in st\<lparr>stored_sync_id := Some newId, syncId := newId\<rparr>)
      else st)"

text \<open>The initial state of the hook: \<^verbatim>\<open>localStorage.getItem('wanderlust_sync_id') || ''\<close>.\<close>

definition initialSyncId :: "string option \<Rightarrow> string" where
  "initialSyncId stored = (case stored of None \<Rightarrow> [] | Some s \<Rightarrow> s)"

section \<open>Planner: version history\<close>

record form_state =
  f_title :: string
  f_location :: string
  f_startDate :: string
  f_endDate :: string
  f_description :: string
  f_budget :: int

record planner =
  editingTripId :: "string option"
  formState :: form_state
  versions :: "trip_version list"
  versionNote :: string
  showVersionPanel :: bool
  isLoadingVersions :: bool
  toastMessage :: string
  showToast :: bool

text \<open>\<^verbatim>\<open>{ ...currentTrip, ...formState }\<close>: the fields of the form replace the trip's.\<close>

definition apply_form :: "form_state \<Rightarrow> trip \<Rightarrow> trip" where
  "apply_form f t =
     t\<lparr>title := f_title f, location := f_location f, startDate := f_startDate f,
       endDate := f_endDate f, description := f_description f, budget := f_budget f\<rparr>"

definition form_of :: "trip \<Rightarrow> form_state" where
  "form_of t =
     \<lparr>f_title = title t, f_location = location t, f_startDate = startDate t,
      f_endDate = endDate t, f_description = description t, f_budget = budget t\<rparr>"

text \<open>The append-only lists of versions in the store, one per trip id, oldest first.\<close>

type_synonym version_store = "string \<Rightarrow> trip_version list"

text \<open>
  Modelled from the spec: \<^verbatim>\<open>SupabaseService.saveTripVersion\<close> is missing from the
  sources. It appends a new version with the current timestamp, the given note and a copy
  of the trip to the list of that trip; it fails only when the write to the store fails.
  \<open>vid\<close> is the fresh id of the version and \<open>now\<close> the current time.
\<close>

definition saveTripVersion ::
  "error option \<Rightarrow> string \<Rightarrow> nat \<Rightarrow> trip \<Rightarrow> string \<Rightarrow> version_store \<Rightarrow>
   error + version_store" where
  "saveTripVersion wr vid now t n store =
     (case wr of
        Some e \<Rightarrow> Inl e
      | None \<Rightarrow>
          Inr (store(trip_id t := store (trip_id t) @
                 [\<lparr>v_id = vid, v_tripId = trip_id t, v_timestamp = now, v_note = n,
                   v_data = t\<rparr>])))"

text \<open>
  Modelled from the spec: \<^verbatim>\<open>SupabaseService.getTripVersions\<close> is missing from the
  sources. It returns all versions of a trip id, newest first. \<open>rd\<close> is the answer of
  the store to the read: \<open>None\<close> when it succeeds.
\<close>

definition getTripVersions ::
  "error option \<Rightarrow> version_store \<Rightarrow> string \<Rightarrow> error + trip_version list" where
  "getTripVersions rd store i = (case rd of Some e \<Rightarrow> Inl e | None \<Rightarrow> Inr (rev (store i)))"

text \<open>
  In JavaScript \<^verbatim>\<open>!editingTripId\<close> holds for \<^verbatim>\<open>null\<close> and for the empty string.
\<close>

definition editing :: "planner \<Rightarrow> string option" where
  "editing st = (case editingTripId st of
                   None \<Rightarrow> None
                 | Some i \<Rightarrow> if i = [] then None else Some i)"

definition loadVersions :: "error option \<Rightarrow> version_store \<Rightarrow> planner \<Rightarrow> planner \<times> event list" where
  "loadVersions rd store st =
     (case editing st of
        None \<Rightarrow> (st, [])
      | Some i \<Rightarrow>
          (case getTripVersions rd store i of
             Inr v \<Rightarrow> (st\<lparr>versions := v, isLoadingVersions := False\<rparr>, [])
           | Inl e \<Rightarrow> (st\<lparr>isLoadingVersions := False\<rparr>,
                       [Alert ''Failed to load versions. Check connection.''])))"

text \<open>\<^verbatim>\<open>versionNote || 'Auto-save'\<close>\<close>

definition note_or_default :: "string \<Rightarrow> string" where
  "note_or_default n = (if n = [] then ''Auto-save'' else n)"

definition handleSaveVersion ::
  "error option \<Rightarrow> error option \<Rightarrow> string \<Rightarrow> nat \<Rightarrow> trip list \<Rightarrow> version_store \<Rightarrow> planner \<Rightarrow>
   version_store \<times> planner \<times> event list" where
  "handleSaveVersion wr rd vid now ts store st =
     (case editing st of
        None \<Rightarrow> (store, st, [])
      | Some i \<Rightarrow>
          (case find_trip i ts of
             None \<Rightarrow> (store, st, [])
           | Some currentTrip \<Rightarrow>
               (let tripToSave = apply_form (formState st) currentTrip
                in case saveTripVersion wr vid now tripToSave
                          (note_or_default (versionNote st)) store of
                     Inr store' \<Rightarrow>
                       (case loadVersions rd store'
                               (st\<lparr>versionNote := [],
                                   toastMessage := ''Version saved to Cloud!'',
                                   showToast := True\<rparr>) of
                          (st', evs) \<Rightarrow> (store', st'\<lparr>isLoadingVersions := False\<rparr>, evs))
                   | Inl e \<Rightarrow>
                       (store, st\<lparr>isLoadingVersions := False\<rparr>,
                        [Alert ''Failed to save version.'']))))"

text \<open>
  \<^verbatim>\<open>handleRestoreVersion\<close>: after the user's confirmation the restored trip is
  \<^verbatim>\<open>{ ...version.data, id: editingTripId }\<close>; it goes to \<^verbatim>\<open>onUpdateTrip\<close> and into the
  form. The handler makes no call of the service.
\<close>

definition restore :: "trip_version \<Rightarrow> string \<Rightarrow> trip" where
  "restore version targetTripId = (v_data version)\<lparr>trip_id := targetTripId\<rparr>"

definition handleRestoreVersion :: "bool \<Rightarrow> trip_version \<Rightarrow> planner \<Rightarrow> planner \<times> event list" where
  "handleRestoreVersion answer version st =
     (case editing st of
        None \<Rightarrow> (st, [])
      | Some i \<Rightarrow>
          (let isDifferentId = (trip_id (v_data version) \<noteq> i);
               msg = (if isDifferentId then RestoreOtherTrip (title (v_data version))
                      else RestoreSameTrip (v_timestamp version))
           in if answer then
                (let restoredTrip = restore version i
                 in (st\<lparr>formState := form_of restoredTrip,
                        toastMessage := ''Version restored successfully.'',
                        showToast := True, showVersionPanel := False\<rparr>,
                     [Confirm msg, UpdateTrip restoredTrip]))
              else (st, [Confirm msg])))"

section \<open>Sample data\<close>

definition trip0 :: trip where
  "trip0 = \<lparr>trip_id = ''A'', title = ''Kyoto'', location = ''Japan'',
            startDate = ''2025-04-01'', endDate = ''2025-04-09'', description = [],
            budget = 100, itinerary = [], expenses = [], flights = []\<rparr>"

definition local0 :: dataset where
  "local0 = \<lparr>trips = [trip0], userProfile = ''me'', customEvents = []\<rparr>"

definition remote0 :: dataset where
  "remote0 = \<lparr>trips = [trip0\<lparr>budget := 200\<rparr>, trip0\<lparr>trip_id := ''B'', budget := 50\<rparr>],
              userProfile = ''other'', customEvents = []\<rparr>"

definition remote1 :: dataset where
  "remote1 = \<lparr>trips = [trip0\<lparr>trip_id := ''B'', budget := 50\<rparr>],
              userProfile = ''other'', customEvents = []\<rparr>"

definition settings0 :: settings where
  "settings0 = \<lparr>syncId = ''K3X9'', stored_sync_id = Some ''K3X9'', isSyncing = False,
                syncStatus = Idle, isEditingId = False, tempId = [], conflicts = [],
                remoteDataCache = None, resolutionMap = Map.empty,
                showConflictModal = False\<rparr>"

definition planner0 :: planner where
  "planner0 = \<lparr>editingTripId = Some ''B'', formState = form_of trip0, versions = [],
               versionNote = [], showVersionPanel = True, isLoadingVersions = False,
               toastMessage = [], showToast = False\<rparr>"

definition version0 :: trip_version where
  "version0 = \<lparr>v_id = ''v1'', v_tripId = ''A'', v_timestamp = 1700000000,
               v_note = ''before flight change'', v_data = trip0\<rparr>"

section \<open>Merge: no trip is lost\<close>

lemma find_trip_id: "find_trip i ts = Some t \<Longrightarrow> trip_id t = i"
  unfolding find_trip_def by (induction ts) (auto split: if_splits)

lemma find_trip_mem: "find_trip i ts = Some t \<Longrightarrow> t \<in> set ts"
  unfolding find_trip_def by (induction ts) (auto split: if_splits)

lemma find_trip_None: "find_trip i ts = None \<longleftrightarrow> i \<notin> trip_id ` set ts"
  unfolding find_trip_def by (induction ts) auto

lemma merge_trip_id: "trip_id (merge_trip R res l) = trip_id l"
  unfolding merge_trip_def by (auto split: option.splits dest: find_trip_id)

lemma trip_ids_merge: "trip_ids (merge L R res) = trip_ids L \<union> trip_ids R"
proof -
  have a: "trip_id ` merge_trip R res ` set (trips L) = trip_id ` set (trips L)"
    by (simp add: image_image merge_trip_id)
  have b: "trip_id ` set (trips L) \<union>
           trip_id ` {r \<in> set (trips R). trip_id r \<notin> trip_id ` set (trips L)} =
           trip_id ` set (trips L) \<union> trip_id ` set (trips R)"
    by blast
  have "trip_ids (merge L R res) =
        trip_id ` merge_trip R res ` set (trips L) \<union>
        trip_id ` {r \<in> set (trips R). trip_id r \<notin> trip_id ` set (trips L)}"
    unfolding merge_def trip_ids_def by (simp add: image_Un)
  with a b show ?thesis
    unfolding trip_ids_def by simp
qed

lemma merge_disjoint:
  assumes "trip_ids L \<inter> trip_ids R = {}"
  shows "trips (merge L R res) = trips L @ trips R"
proof -
  have "merge_trip R res l = l" if "l \<in> set (trips L)" for l
  proof -
    from that assms have "trip_id l \<notin> trip_id ` set (trips R)"
      unfolding trip_ids_def by auto
    then have "find_trip (trip_id l) (trips R) = None"
      by (simp add: find_trip_None)
    then show ?thesis by (simp add: merge_trip_def)
  qed
  then have "map (merge_trip R res) (trips L) = trips L"
    by (simp add: map_idI)
  moreover from assms have "filter (\<lambda>r. trip_id r \<notin> trip_ids L) (trips R) = trips R"
    unfolding trip_ids_def by (auto simp: filter_id_conv)
  ultimately show ?thesis by (simp add: merge_def)
qed

text \<open>
  C1 (no data loss, union property): for all datasets and every resolution map, each trip
  id of the local or of the remote dataset is a trip id of the merged dataset; and when
  the two datasets share no trip id, merging with the empty resolution map yields exactly
  \<open>|L.trips| + |R.trips|\<close> trips.
\<close>

theorem merge_no_data_loss:
  "(\<forall>i \<in> trip_ids L \<union> trip_ids R. i \<in> trip_ids (merge L R res)) \<and>
   (trip_ids L \<inter> trip_ids R = {} \<longrightarrow>
      length (trips (merge L R Map.empty)) = length (trips L) + length (trips R))"
  by (simp add: trip_ids_merge merge_disjoint)

theorem merge_no_data_loss_witness:
  "trip_ids local0 \<inter> trip_ids remote1 = {} \<and>
   ''A'' \<in> trip_ids (merge local0 remote1 Map.empty) \<and>
   ''B'' \<in> trip_ids (merge local0 remote1 Map.empty) \<and>
   length (trips (merge local0 remote1 Map.empty)) = 2"
proof -
  have d: "trip_ids local0 \<inter> trip_ids remote1 = {}"
    by (simp add: trip_ids_def local0_def remote1_def trip0_def)
  have m: "trip_ids local0 \<union> trip_ids remote1 = {''A'', ''B''}"
    by (auto simp add: trip_ids_def local0_def remote1_def trip0_def)
  from merge_no_data_loss [of local0 remote1 Map.empty] d m show ?thesis
    by (simp add: local0_def remote1_def)
qed

section \<open>Restoring a version\<close>

lemma restore_fields:
  "trip_id (restore v i) = i \<and> (restore v i)\<lparr>trip_id := trip_id (v_data v)\<rparr> = v_data v"
  by (simp add: restore_def)

text \<open>
  C2 (restore retargets): for every version and every trip id that is being edited, the
  restored trip is the stored data of the version with its id set to the trip being
  edited, also when the stored id is another one. After the user's confirmation the
  handler passes this trip to \<open>onUpdateTrip\<close> and makes no other call, so the store is
  not touched, and the list of versions it holds is unchanged; when the user declines,
  nothing changes.
\<close>

theorem restore_retargets:
  assumes "editingTripId st = Some i" and "i \<noteq> []"
  shows "trip_id (restore v i) = i \<and>
         (restore v i)\<lparr>trip_id := trip_id (v_data v)\<rparr> = v_data v \<and>
         (\<exists>msg. snd (handleRestoreVersion True v st) = [Confirm msg, UpdateTrip (restore v i)]) \<and>
         versions (fst (handleRestoreVersion True v st)) = versions st \<and>
         snd (handleRestoreVersion False v st) = [Confirm (if trip_id (v_data v) \<noteq> i then RestoreOtherTrip (title (v_data v)) else RestoreSameTrip (v_timestamp v))] \<and>
         fst (handleRestoreVersion False v st) = st"
proof -
  from assms have e: "editing st = Some i"
    by (simp add: editing_def)
  show ?thesis
    by (simp add: restore_fields handleRestoreVersion_def e Let_def)
qed

theorem restore_retargets_witness:
  "trip_id (v_data version0) \<noteq> ''B'' \<and>
   snd (handleRestoreVersion True version0 planner0) =
     [Confirm (RestoreOtherTrip ''Kyoto''), UpdateTrip (trip0\<lparr>trip_id := ''B''\<rparr>)] \<and>
   versions (fst (handleRestoreVersion True version0 planner0)) = []"
proof -
  have a: "editingTripId planner0 = Some ''B''" by (simp add: planner0_def)
  have b: "''B'' \<noteq> []" by simp
  have c: "snd (handleRestoreVersion True version0 planner0) =
     [Confirm (RestoreOtherTrip ''Kyoto''), UpdateTrip (trip0\<lparr>trip_id := ''B''\<rparr>)]"
    by (simp add: handleRestoreVersion_def editing_def planner0_def version0_def trip0_def restore_def Let_def)
  from restore_retargets [OF a b, of version0] c show ?thesis
    by (simp add: planner0_def version0_def trip0_def)
qed


section \<open>Resolution map and default side\<close>










section \<open>The sync writes first and imports after\<close>

lemma performSync_failure:
  "performSync (Some e) fullData remoteData res st =
     (st\<lparr>syncStatus := Error, isSyncing := False\<rparr>,
      [RemoteWrite (syncId st) (case remoteData of None \<Rightarrow> fullData | Some r \<Rightarrow> merge fullData r res),
       Alert (''Sync failed during save: '' @ message e)])"
  by (simp add: performSync_def saveGlobalBackup_def Let_def)

lemma performSync_success:
  "performSync None fullData remoteData res st =
     (st\<lparr>syncStatus := Success, showConflictModal := False, conflicts := [],
         remoteDataCache := None, isSyncing := False\<rparr>,
      [RemoteWrite (syncId st) (case remoteData of None \<Rightarrow> fullData | Some r \<Rightarrow> merge fullData r res),
       ImportData (case remoteData of None \<Rightarrow> fullData | Some r \<Rightarrow> merge fullData r res),
       Alert ''Sync successful! Changes have been merged.''])"
  by (simp add: performSync_def saveGlobalBackup_def Let_def)

lemma imported_append: "imported (xs @ ys) = imported xs @ imported ys"
  by (induction xs rule: imported.induct) auto

lemma handleCloudSync_no_import:
  "wr \<noteq> None \<or> isl fetched \<Longrightarrow> imported (snd (handleCloudSync fetched wr fullData st)) = []"
proof (cases fetched)
  case (Inl e)
  then show ?thesis
    by (simp add: handleCloudSync_def checkForConflicts_def)
next
  case (Inr r)
  assume "wr \<noteq> None \<or> isl fetched"
  with Inr obtain e where wr: "wr = Some e" by auto
  show ?thesis
    by (cases r)
       (simp_all add: Inr wr handleCloudSync_def checkForConflicts_def performSync_failure Let_def)
qed

text \<open>
  C4 (all or nothing): when the remote write fails, \<open>performSync\<close> reports the failure
  (status \<open>Error\<close> and an alert) and never calls \<open>onImportData\<close>; the same holds when it
  is reached from the confirmation of the conflict dialog or from \<open>handleCloudSync\<close>, and
  a failed fetch in \<open>handleCloudSync\<close> imports nothing either.
\<close>

theorem no_import_on_failure:
  assumes "wr = Some e"
  shows "imported (snd (performSync wr fullData remoteData res st)) = [] \<and>
         syncStatus (fst (performSync wr fullData remoteData res st)) = Error \<and>
         last (snd (performSync wr fullData remoteData res st)) =
           Alert (''Sync failed during save: '' @ message e) \<and>
         imported (snd (handleConfirmResolution wr fullData st)) = [] \<and>
         syncStatus (fst (handleConfirmResolution wr fullData st)) = Error \<and>
         imported (snd (handleCloudSync fetched wr fullData st)) = [] \<and>
         imported (snd (handleCloudSync (Inl e) wr' fullData st)) = []"
proof -
  have a: "imported (snd (handleCloudSync fetched wr fullData st)) = []"
    using assms by (simp add: handleCloudSync_no_import)
  have b: "imported (snd (handleCloudSync (Inl e) wr' fullData st)) = []"
    by (simp add: handleCloudSync_no_import)
  show ?thesis
    unfolding assms handleConfirmResolution_def performSync_failure
    using a b assms by simp
qed

theorem no_import_on_failure_witness:
  "snd (performSync (Some RemoteUnavailable) local0 (Some remote1) Map.empty settings0) =
     [RemoteWrite ''K3X9'' (merge local0 remote1 Map.empty),
      Alert ''Sync failed during save: RemoteUnavailable''] \<and>
   imported (snd (performSync (Some RemoteUnavailable) local0 (Some remote1) Map.empty settings0)) = []"
  using no_import_on_failure [of "Some RemoteUnavailable" RemoteUnavailable local0 "Some remote1"
      Map.empty settings0]
  by (simp add: performSync_failure settings0_def)

text \<open>
  C5 (one merged value): in every run of \<open>performSync\<close> the service is called once; when
  the data is imported, the imported value is the value written under the Sync
  Identifier, the write comes first, the import follows it directly, and no fetch of the
  store happens in the run.
\<close>

theorem written_value_is_imported:
  "fetched_ids (snd (performSync wr fullData remoteData res st)) = [] \<and>
   (\<forall>d \<in> set (imported (snd (performSync wr fullData remoteData res st))).
      snd (performSync wr fullData remoteData res st) =
        [RemoteWrite (syncId st) d, ImportData d,
         Alert ''Sync successful! Changes have been merged.''])"
  by (cases wr) (simp_all add: performSync_failure performSync_success)

theorem written_value_is_imported_witness:
  "imported (snd (performSync None local0 (Some remote1) Map.empty settings0)) =
     [merge local0 remote1 Map.empty] \<and>
   written (snd (performSync None local0 (Some remote1) Map.empty settings0)) =
     [(''K3X9'', merge local0 remote1 Map.empty)]"
proof -
  have i: "imported (snd (performSync None local0 (Some remote1) Map.empty settings0)) =
     [merge local0 remote1 Map.empty]"
    by (simp add: performSync_success)
  then have "merge local0 remote1 Map.empty \<in>
     set (imported (snd (performSync None local0 (Some remote1) Map.empty settings0)))"
    by simp
  with written_value_is_imported [of None local0 "Some remote1" Map.empty settings0]
  have "snd (performSync None local0 (Some remote1) Map.empty settings0) =
        [RemoteWrite (syncId settings0) (merge local0 remote1 Map.empty),
         ImportData (merge local0 remote1 Map.empty),
         Alert ''Sync successful! Changes have been merged.'']"
    by blast
  with i show ?thesis by (simp add: settings0_def)
qed

section \<open>Cancelling the conflict dialog\<close>






section \<open>Changing the Sync Identifier\<close>



text \<open>
  C8 (warning before switching): for a valid new identifier under which the store holds
  data, \<open>saveEditedId\<close> reads the store and then asks the user with the warning that the
  identifier is in use; the identifier in use and the stored one become the new one when
  the user confirms, and stay as they were when the user declines.
\<close>

theorem switch_needs_confirmation:
  assumes "newId = toUpperCase (trim (tempId st))"
    and "newId \<noteq> []" and "newId \<noteq> syncId st"
    and "4 \<le> length newId" and "id_pattern newId"
  shows "snd (saveEditedId (Inr (Some d)) answer st) =
           [RemoteFetch newId, Confirm (WarningInUse newId)] \<and>
         (answer \<longrightarrow> syncId (fst (saveEditedId (Inr (Some d)) answer st)) = newId \<and>
                     stored_sync_id (fst (saveEditedId (Inr (Some d)) answer st)) = Some newId) \<and>
         (\<not> answer \<longrightarrow> syncId (fst (saveEditedId (Inr (Some d)) answer st)) = syncId st \<and>
                       stored_sync_id (fst (saveEditedId (Inr (Some d)) answer st)) =
                         stored_sync_id st)"
  using assms by (simp add: saveEditedId_def loadGlobalBackup_def Let_def)

theorem switch_needs_confirmation_witness:
  "''TRIP-25'' = toUpperCase (trim (tempId (settings0\<lparr>tempId := '' trip-25''\<rparr>))) \<and>
   id_pattern ''TRIP-25'' \<and>
   snd (saveEditedId (Inr (Some remote0)) False (settings0\<lparr>tempId := '' trip-25''\<rparr>)) =
     [RemoteFetch ''TRIP-25'', Confirm (WarningInUse ''TRIP-25'')] \<and>
   syncId (fst (saveEditedId (Inr (Some remote0)) False (settings0\<lparr>tempId := '' trip-25''\<rparr>))) =
     ''K3X9'' \<and>
   syncId (fst (saveEditedId (Inr (Some remote0)) True (settings0\<lparr>tempId := '' trip-25''\<rparr>))) =
     ''TRIP-25''"
proof -
  have n: "toUpperCase (trim '' trip-25'') = ''TRIP-25''" by code_simp
  have a: "''TRIP-25'' = toUpperCase (trim (tempId (settings0\<lparr>tempId := '' trip-25''\<rparr>)))"
    by (simp add: n)
  have b: "''TRIP-25'' \<noteq> []" by simp
  have c: "''TRIP-25'' \<noteq> syncId (settings0\<lparr>tempId := '' trip-25''\<rparr>)"
    by (simp add: settings0_def)
  have d: "4 \<le> length ''TRIP-25''" by simp
  have e: "id_pattern ''TRIP-25''" by code_simp
  from switch_needs_confirmation [OF a b c d e, of remote0 False]
       switch_needs_confirmation [OF a b c d e, of remote0 True] a e
  show ?thesis by (simp add: settings0_def)
qed

section \<open>Saving a version\<close>

lemma apply_form_id: "trip_id (apply_form f t) = trip_id t"
  by (simp add: apply_form_def)

text \<open>
  C9 (saving a version): when a trip is being edited and the write succeeds,
  \<open>handleSaveVersion\<close> appends exactly one version to the list of that trip and leaves
  the lists of the other trips alone. The version carries the note of the user, and the
  placeholder \<open>Auto-save\<close> when the note is empty; its data is the trip with the fields of
  the form, its timestamp the current time.
\<close>

theorem save_version_appends:
  assumes "editing st = Some i" and "find_trip i ts = Some t"
  shows "\<exists>v. fst (handleSaveVersion None rd vid now ts store st) i = store i @ [v] \<and>
             v_note v = (if versionNote st = [] then ''Auto-save'' else versionNote st) \<and>
             v_note v \<noteq> [] \<and>
             v_data v = apply_form (formState st) t \<and>
             v_timestamp v = now \<and> v_tripId v = i \<and>
             (\<forall>j. j \<noteq> i \<longrightarrow> fst (handleSaveVersion None rd vid now ts store st) j = store j)"
proof -
  from assms(2) have "trip_id t = i" by (rule find_trip_id)
  then have "trip_id (apply_form (formState st) t) = i"
    by (simp add: apply_form_id)
  then show ?thesis
    using assms
    by (simp add: handleSaveVersion_def saveTripVersion_def note_or_default_def Let_def
        split: prod.splits)
qed

theorem save_version_appends_witness:
  "editing (planner0\<lparr>editingTripId := Some ''A''\<rparr>) = Some ''A'' \<and>
   find_trip ''A'' [trip0] = Some trip0 \<and>
   map v_note (fst (handleSaveVersion None None ''v2'' 5 [trip0] (\<lambda>i. [])
          (planner0\<lparr>editingTripId := Some ''A''\<rparr>)) ''A'') = [''Auto-save''] \<and>
   map v_data (fst (handleSaveVersion None None ''v2'' 5 [trip0] (\<lambda>i. [])
          (planner0\<lparr>editingTripId := Some ''A''\<rparr>)) ''A'') = [trip0]"
proof -
  have a: "editing (planner0\<lparr>editingTripId := Some ''A''\<rparr>) = Some ''A''"
    by (simp add: editing_def)
  have b: "find_trip ''A'' [trip0] = Some trip0"
    by (simp add: find_trip_def trip0_def)
  have c: "apply_form (form_of trip0) trip0 = trip0"
    by (simp add: apply_form_def form_of_def)
  from save_version_appends [OF a b, of None "''v2''" 5 "\<lambda>i. []"]
  obtain v where
    "fst (handleSaveVersion None None ''v2'' 5 [trip0] (\<lambda>i. [])
          (planner0\<lparr>editingTripId := Some ''A''\<rparr>)) ''A'' = [] @ [v]"
    "v_note v = (if versionNote (planner0\<lparr>editingTripId := Some ''A''\<rparr>) = []
                 then ''Auto-save'' else versionNote (planner0\<lparr>editingTripId := Some ''A''\<rparr>))"
    "v_data v = apply_form (formState (planner0\<lparr>editingTripId := Some ''A''\<rparr>)) trip0"
    by blast
  with a b c show ?thesis
    by (simp add: planner0_def)
qed

section \<open>Generating a Sync Identifier\<close>

lemma toUpperCase_length: "length (toUpperCase s) = length s"
  by (simp add: toUpperCase_def)

lemma generateSyncId_length: "length (generateSyncId r) \<le> 8"
  by (simp add: generateSyncId_def toUpperCase_length)

lemma generateSyncId_nonempty: "2 < length r \<Longrightarrow> generateSyncId r \<noteq> []"
  by (simp add: generateSyncId_def toUpperCase_def)

text \<open>
  C10, at the random number 0, whose base-36 rendering is the one-character string
  \<open>0\<close>: no character is left at the positions 2 to 9, the generated identifier is the
  empty string, and the state keeps an empty Sync Identifier.
\<close>

theorem empty_id_generated:
  "generateSyncId ''0'' = [] \<and>
   syncId (ensureSyncId ''0'' (settings0\<lparr>syncId := initialSyncId None, stored_sync_id := None\<rparr>)) = [] \<and>
   stored_sync_id (ensureSyncId ''0''
      (settings0\<lparr>syncId := initialSyncId None, stored_sync_id := None\<rparr>)) = Some []"
  by (simp add: generateSyncId_def toUpperCase_def ensureSyncId_def initialSyncId_def Let_def)

lemma generate_example: "generateSyncId ''0.4fzyo82mvyr'' = ''4FZYO82M''"
  by code_simp

end
